theory Spec2Isabelle
  imports Main "HOL-Library.AList"
begin

section \<open>Data model of \<open>backend/main.py\<close>\<close>

text \<open>
  The backend keeps two module-level dictionaries, \<open>rooms_db\<close> (room identifier to
  \<open>Room\<close>) and \<open>active_streams\<close> (stream key to start time), and serves HTTP handlers that
  read and mutate them. Every handler becomes a function from the application state to a
  result and, where it mutates, the new state. \<open>HTTPException\<close> is a value: a handler's
  result is \<open>http_error + response\<close>, with \<open>Inl\<close> for the raised exception.

  Timestamps (\<open>datetime.utcnow()\<close>) are natural numbers handed to the handler that reads
  the clock. The two random generators of \<open>create_room\<close>, \<open>uuid.uuid4()\<close> and
  \<open>secrets.token_urlsafe(32)\<close>, are handed in as the strings they return. The QR encoder
  of the external \<open>qrcode\<close> library is a parameter \<open>png_base64\<close> of the handlers that
  render a QR code: the function from a URL to the base64 text of the PNG image.
\<close>

type_synonym datetime = nat

record Room =
  room_id :: string
  stream_key :: string
  title :: string
  created_at :: datetime
  is_active :: bool
  viewer_count :: int

record CreateRoomRequest =
  title :: string
  description :: "string option"

record RoomResponse =
  room_id :: string
  stream_key :: string
  title :: string
  rtmp_url :: string
  viewer_url :: string
  qr_code :: string
  created_at :: datetime
  is_active :: bool
  viewer_count :: int

text \<open>
  The three classes share field names; the selectors are told apart by their qualified
  names (\<open>Room.title\<close>, \<open>CreateRoomRequest.title\<close>, \<open>RoomResponse.title\<close>).
\<close>

text \<open>
  \<open>HTTPException status detail\<close> is the exception of that name. \<open>Uncaught e\<close> is any other
  exception, of class \<open>e\<close>, that leaves a handler uncaught.
\<close>

datatype http_error = HTTPException nat string | Uncaught string

record JSONResponse =
  status_code :: nat
  content :: "(string \<times> string) list"

text \<open>
  The dictionary literal returned by \<open>get_stream_status\<close>. The Python \<open>None\<close> of
  \<open>started_at\<close> is \<open>None\<close>.
\<close>

record StreamStatus =
  stream_key :: string
  is_active :: bool
  started_at :: "datetime option"

text \<open>
  \<open>form_data.get("name")\<close> is the text of the form field \<open>name\<close>, or Python's \<open>None\<close>
  when the request has no such field. The webhooks use that value as it is, both in the
  comparison with a room's stream key and as the key of \<open>active_streams\<close>, so the keys of
  \<open>active_streams\<close> are form values; \<open>get_stream_status\<close> looks up a string.
\<close>

type_synonym form_value = "string option"

text \<open>
  Both webhooks start with \<open>form_data = await request.form()\<close>. The form parser is the
  framework's: on a body it accepts it returns the form, of which the handlers read the one
  field \<open>name\<close>; on a body it rejects (a multipart body with no boundary, say) it raises
  \<open>HTTPException(status_code=400, detail=message)\<close>. A request is given by that outcome:
  \<open>Form v\<close> for a parsed form with \<open>form_data.get("name") = v\<close>, \<open>Rejected message\<close> for a
  body the parser rejects.
\<close>

datatype Request = Form form_value | Rejected string

text \<open>
  Both webhooks \<open>print\<close> a line when they found a room. Standard output is a parameter
  \<open>stdout\<close> of the webhooks: \<open>stdout line\<close> is \<open>None\<close> when the line is written and
  \<open>Some e\<close> when writing it raises an exception of class \<open>e\<close> (a stream whose encoding
  has no code for a character of the line raises \<open>UnicodeEncodeError\<close>). Strings are byte
  strings in UTF-8, so the two pictographs of the source are their bytes.
\<close>

type_synonym stdout = "string \<Rightarrow> string option"

text \<open>
  \<open>rooms_db\<close> is iterated by the webhooks, so its insertion order matters: it is an
  association list with the semantics of a Python dictionary. \<open>rooms_db[k] = v\<close> is
  \<open>AList.update k v\<close> (the value is replaced in place when \<open>k\<close> is present, the pair is
  appended otherwise), \<open>del rooms_db[k]\<close> is \<open>AList.delete k\<close>, \<open>k in rooms_db\<close> and
  \<open>rooms_db[k]\<close> are \<open>map_of\<close>, and \<open>rooms_db.values()\<close> is \<open>map snd\<close>.
  \<open>active_streams\<close> is never iterated: it is a map.
\<close>

record app_state =
  rooms_db :: "(string \<times> Room) list"
  active_streams :: "form_value \<rightharpoonup> datetime"

definition initial_state :: app_state where
  "initial_state = \<lparr>rooms_db = [], active_streams = Map.empty\<rparr>"

section \<open>Room registry handlers\<close>

definition generate_qr_code :: "(string \<Rightarrow> string) \<Rightarrow> string \<Rightarrow> string" where
  "generate_qr_code png_base64 url = ''data:image/png;base64,'' @ png_base64 url"

text \<open>
  \<open>create_room\<close>: \<open>uuid4\<close> and \<open>token\<close> are the values drawn for \<open>room_id\<close> and
  \<open>stream_key\<close>, \<open>now\<close> is the clock. The room is stored with no look at the keys already
  in \<open>rooms_db\<close>.
\<close>

definition create_room ::
  "(string \<Rightarrow> string) \<Rightarrow> string \<Rightarrow> string \<Rightarrow> datetime \<Rightarrow> CreateRoomRequest \<Rightarrow> app_state
    \<Rightarrow> (http_error + RoomResponse) \<times> app_state" where
  "create_room png_base64 uuid4 token now request s =
    (let room = \<lparr>Room.room_id = uuid4, Room.stream_key = token,
                  Room.title = CreateRoomRequest.title request, Room.created_at = now,
                  Room.is_active = False, Room.viewer_count = 0\<rparr>;
         s' = s\<lparr>rooms_db := AList.update uuid4 room (rooms_db s)\<rparr>;
         server_host = ''tilsync.nu.edu.kz'';
         rtmp_url = ''rtmp://'' @ server_host @ '':'' @ ''443'' @ ''/live/'' @ token;
         viewer_url = ''https://tilsync.nu.edu.kz/broadcast/client/room/'' @ uuid4;
         qr_code = generate_qr_code png_base64 viewer_url
     in (Inr \<lparr>RoomResponse.room_id = Room.room_id room,
              RoomResponse.stream_key = Room.stream_key room,
              RoomResponse.title = Room.title room,
              rtmp_url = rtmp_url, viewer_url = viewer_url, qr_code = qr_code,
              RoomResponse.created_at = Room.created_at room,
              RoomResponse.is_active = Room.is_active room,
              RoomResponse.viewer_count = Room.viewer_count room\<rparr>, s'))"

definition get_room ::
  "(string \<Rightarrow> string) \<Rightarrow> string \<Rightarrow> app_state \<Rightarrow> http_error + RoomResponse" where
  "get_room png_base64 rid s =
    (case map_of (rooms_db s) rid of
       None \<Rightarrow> Inl (HTTPException 404 ''Room not found'')
     | Some room \<Rightarrow>
        (let server_host = ''tilsync.nu.edu.kz'';
             rtmp_url = ''rtmp://'' @ server_host @ '':'' @ ''443'' @ ''/live/''
                          @ Room.stream_key room;
             viewer_url = ''https://tilsync.nu.edu.kz/broadcast/client/room/'' @ rid;
             qr_code = generate_qr_code png_base64 viewer_url
         in Inr \<lparr>RoomResponse.room_id = Room.room_id room,
                 RoomResponse.stream_key = Room.stream_key room,
                 RoomResponse.title = Room.title room,
                 rtmp_url = rtmp_url, viewer_url = viewer_url, qr_code = qr_code,
                 RoomResponse.created_at = Room.created_at room,
                 RoomResponse.is_active = Room.is_active room,
                 RoomResponse.viewer_count = Room.viewer_count room\<rparr>))"

definition delete_room ::
  "string \<Rightarrow> app_state \<Rightarrow> (http_error + (string \<times> string) list) \<times> app_state" where
  "delete_room rid s =
    (case map_of (rooms_db s) rid of
       None \<Rightarrow> (Inl (HTTPException 404 ''Room not found''), s)
     | Some room \<Rightarrow>
        (Inr [(''message'', ''Room deleted successfully'')],
         s\<lparr>rooms_db := AList.delete rid (rooms_db s)\<rparr>))"

section \<open>Stream webhooks and stream status\<close>

text \<open>
  The loop \<open>for r in rooms_db.values(): if r.stream_key == stream_key: room = r; break\<close>
  of both webhooks. \<open>room\<close> is a reference to the object held by \<open>rooms_db\<close>, so the
  result is the position of that object in the dictionary, and the assignment
  \<open>room.is_active = b\<close> that follows writes the flag at that position. A Python string is
  never equal to \<open>None\<close>: a missing form field matches no room.
\<close>

fun find_room :: "form_value \<Rightarrow> Room list \<Rightarrow> nat option" where
  "find_room name [] = None"
| "find_room name (r # rs) =
     (if Some (Room.stream_key r) = name then Some 0
      else map_option Suc (find_room name rs))"

definition set_is_active :: "nat \<Rightarrow> bool \<Rightarrow> (string \<times> Room) list \<Rightarrow> (string \<times> Room) list" where
  "set_is_active i b db = db[i := (fst (db ! i), (snd (db ! i))\<lparr>Room.is_active := b\<rparr>)]"

definition status_ok :: JSONResponse where
  "status_ok = \<lparr>status_code = 200, content = [(''status'', ''ok'')]\<rparr>"

text \<open>
  \<open>if room:\<close> holds exactly when the loop found a room (a \<open>Room\<close> object is truthy). Both
  the flag and the session table are touched under that test only.
\<close>

text \<open>
  The lines \<open>f"<note> Stream started for room: {room.title}"\<close> and
  \<open>f"<stop> Stream ended for room: {room.title}"\<close> the webhooks print, where \<open><note>\<close> is
  U+1F3B5 and \<open><stop>\<close> is U+23F9 U+FE0F.
\<close>

definition started_line :: "Room \<Rightarrow> string" where
  "started_line room =
     [CHR 0xF0, CHR 0x9F, CHR 0x8E, CHR 0xB5] @ '' Stream started for room: '' @ Room.title room"

definition ended_line :: "Room \<Rightarrow> string" where
  "ended_line room =
     [CHR 0xE2, CHR 0x8F, CHR 0xB9, CHR 0xEF, CHR 0xB8, CHR 0x8F] @ '' Stream ended for room: ''
       @ Room.title room"

text \<open>
  The handlers, statement by statement: the parse of the form, which may raise; the loop;
  under \<open>if room:\<close> the writes to the room and to \<open>active_streams\<close> and then the
  \<open>print\<close>, which may raise after the state is written; the response.
\<close>

definition stream_start_webhook ::
  "stdout \<Rightarrow> datetime \<Rightarrow> Request \<Rightarrow> app_state \<Rightarrow> (http_error + JSONResponse) \<times> app_state" where
  "stream_start_webhook stdout now request s =
    (case request of
       Rejected message \<Rightarrow> (Inl (HTTPException 400 message), s)
     | Form name \<Rightarrow>
        (case find_room name (map snd (rooms_db s)) of
           None \<Rightarrow> (Inr status_ok, s)
         | Some i \<Rightarrow>
            (case stdout (started_line (snd (rooms_db s ! i))) of
               None \<Rightarrow> Inr status_ok
             | Some e \<Rightarrow> Inl (Uncaught e),
             s\<lparr>rooms_db := set_is_active i True (rooms_db s),
               active_streams := (active_streams s)(name \<mapsto> now)\<rparr>)))"

definition stream_end_webhook ::
  "stdout \<Rightarrow> Request \<Rightarrow> app_state \<Rightarrow> (http_error + JSONResponse) \<times> app_state" where
  "stream_end_webhook stdout request s =
    (case request of
       Rejected message \<Rightarrow> (Inl (HTTPException 400 message), s)
     | Form name \<Rightarrow>
        (case find_room name (map snd (rooms_db s)) of
           None \<Rightarrow> (Inr status_ok, s)
         | Some i \<Rightarrow>
            (case stdout (ended_line (snd (rooms_db s ! i))) of
               None \<Rightarrow> Inr status_ok
             | Some e \<Rightarrow> Inl (Uncaught e),
             s\<lparr>rooms_db := set_is_active i False (rooms_db s),
               active_streams :=
                 (if active_streams s name \<noteq> None then (active_streams s)(name := None)
                  else active_streams s)\<rparr>)))"

definition get_stream_status :: "string \<Rightarrow> app_state \<Rightarrow> StreamStatus" where
  "get_stream_status k s =
    (let active = (active_streams s (Some k) \<noteq> None)
     in \<lparr>StreamStatus.stream_key = k, StreamStatus.is_active = active,
         started_at = (if active then active_streams s (Some k) else None)\<rparr>)"

section \<open>Runs of the backend\<close>

text \<open>
  The requests that change the state, with the values the handler draws from the clock and
  the random generators, and the state after a sequence of them served one after another
  from the empty tables the process starts with.
\<close>

datatype operation =
    CreateRoom string string datetime CreateRoomRequest
  | DeleteRoom string
  | StreamStart datetime Request
  | StreamEnd Request

fun serve :: "(string \<Rightarrow> string) \<Rightarrow> stdout \<Rightarrow> operation \<Rightarrow> app_state \<Rightarrow> app_state" where
  "serve png_base64 stdout (CreateRoom uuid4 token now request) s =
     snd (create_room png_base64 uuid4 token now request s)"
| "serve png_base64 stdout (DeleteRoom rid) s = snd (delete_room rid s)"
| "serve png_base64 stdout (StreamStart now request) s =
     snd (stream_start_webhook stdout now request s)"
| "serve png_base64 stdout (StreamEnd request) s = snd (stream_end_webhook stdout request s)"

fun run :: "(string \<Rightarrow> string) \<Rightarrow> stdout \<Rightarrow> operation list \<Rightarrow> app_state \<Rightarrow> app_state" where
  "run png_base64 stdout [] s = s"
| "run png_base64 stdout (q # qs) s = run png_base64 stdout qs (serve png_base64 stdout q s)"

text \<open>The stream keys borne by the rooms of the registry, in dictionary order.\<close>

definition stream_keys :: "app_state \<Rightarrow> string list" where
  "stream_keys s = map (\<lambda>p. Room.stream_key (snd p)) (rooms_db s)"

text \<open>
  A stored room is the first of the registry with stream key \<open>name\<close>: the room the
  webhooks' loop stops at.
\<close>

definition first_with_key :: "form_value \<Rightarrow> (string \<times> Room) list \<Rightarrow> nat \<Rightarrow> bool" where
  "first_with_key name db i \<longleftrightarrow>
     i < length db \<and> Some (Room.stream_key (snd (db ! i))) = name \<and>
     (\<forall>j < i. Some (Room.stream_key (snd (db ! j))) \<noteq> name)"

text \<open>A Python dictionary holds each key once.\<close>

definition dict_keys_distinct :: "app_state \<Rightarrow> bool" where
  "dict_keys_distinct s \<longleftrightarrow> distinct (map fst (rooms_db s))"


text \<open>Concrete identifiers of the shapes \<open>uuid4\<close> and \<open>token_urlsafe(32)\<close> return.\<close>

definition uuid_a :: string where
  "uuid_a = ''11111111-1111-4111-8111-111111111111''"

definition uuid_b :: string where
  "uuid_b = ''22222222-2222-4222-8222-222222222222''"

definition token_a :: string where
  "token_a = ''AAAAAAAAAAAAAAAAAAAAAAAAAAAAAAAAAAAAAAAAAAA''"

definition token_b :: string where
  "token_b = ''__________________________________________8''"

text \<open>
  Two standard outputs: one in UTF-8, which writes every line, and one in ASCII, which
  raises \<open>UnicodeEncodeError\<close> on a line with a byte beyond 127.
\<close>

definition stdout_utf8 :: stdout where
  "stdout_utf8 line = None"


definition morning_show :: CreateRoomRequest where
  "morning_show = \<lparr>CreateRoomRequest.title = ''Morning Show'', description = None\<rparr>"

definition evening_show :: CreateRoomRequest where
  "evening_show = \<lparr>CreateRoomRequest.title = ''Evening Show'', description = None\<rparr>"

section \<open>Concrete states\<close>

definition one_room_state :: app_state where
  "one_room_state = run id stdout_utf8 [CreateRoom uuid_a token_a 1 morning_show] initial_state"

definition publishing_state :: app_state where
  "publishing_state =
     run id stdout_utf8 [CreateRoom uuid_a token_a 1 morning_show, StreamStart 2 (Form (Some token_a))] initial_state"

definition orphan_session_state :: app_state where
  "orphan_session_state =
     run id stdout_utf8 [CreateRoom uuid_a token_a 1 morning_show, StreamStart 2 (Form (Some token_a)),
             DeleteRoom uuid_a] initial_state"

text \<open>The \<open>room_id\<close> fields of the stored rooms, in dictionary order.\<close>

definition room_ids :: "app_state \<Rightarrow> string list" where
  "room_ids s = map (\<lambda>p. Room.room_id (snd p)) (rooms_db s)"

definition two_rooms_state :: app_state where
  "two_rooms_state =
     run id stdout_utf8 [CreateRoom uuid_a token_a 1 morning_show,
             CreateRoom uuid_b token_b 2 evening_show] initial_state"

text \<open>Two creations that draw the same stream key, and two that draw the same room identifier.\<close>

definition shared_key_state :: app_state where
  "shared_key_state =
     run id stdout_utf8 [CreateRoom uuid_a token_a 1 morning_show,
             CreateRoom uuid_b token_a 2 evening_show] initial_state"


text \<open>
  The keys of \<open>rooms_db\<close> are pairwise different and every room is stored under its own
  \<open>room_id\<close>.
\<close>

definition registry_inv :: "app_state \<Rightarrow> bool" where
  "registry_inv s \<longleftrightarrow> distinct (map fst (rooms_db s)) \<and> room_ids s = map fst (rooms_db s)"

section \<open>The room found by the webhooks\<close>

lemma find_room_None_iff:
  "find_room name rs = None \<longleftrightarrow> name \<notin> set (map (\<lambda>r. Some (Room.stream_key r)) rs)"
  by (induction rs) auto

lemma find_room_Some_first:
  "find_room name rs = Some i \<Longrightarrow>
     i < length rs \<and> Some (Room.stream_key (rs ! i)) = name \<and>
     (\<forall>j < i. Some (Room.stream_key (rs ! j)) \<noteq> name)"
proof (induction rs arbitrary: i)
  case Nil
  then show ?case by simp
next
  case (Cons r rs)
  show ?case
  proof (cases "Some (Room.stream_key r) = name")
    case True
    with Cons.prems show ?thesis by simp
  next
    case False
    with Cons.prems obtain i' where i': "find_room name rs = Some i'" "i = Suc i'"
      by auto
    from Cons.IH [OF i'(1)] False i'(2) show ?thesis
      by (auto simp: nth_Cons split: nat.splits)
  qed
qed

lemma find_room_stream_keys:
  "find_room (Some k) (map snd (rooms_db s)) = None \<longleftrightarrow> k \<notin> set (stream_keys s)"
  by (auto simp: find_room_None_iff stream_keys_def)

lemma find_room_missing_field [simp]: "find_room None rs = None"
  by (induction rs) auto

lemma first_with_key_find_room:
  "first_with_key name db i \<longleftrightarrow> find_room name (map snd db) = Some i"
proof
  assume "find_room name (map snd db) = Some i"
  from find_room_Some_first [OF this] show "first_with_key name db i"
    by (auto simp: first_with_key_def)
next
  assume f: "first_with_key name db i"
  then have "db ! i \<in> set db" and "Some (Room.stream_key (snd (db ! i))) = name"
    by (simp_all add: first_with_key_def)
  then have "name \<in> set (map (\<lambda>r. Some (Room.stream_key r)) (map snd db))"
    by force
  then have "find_room name (map snd db) \<noteq> None"
    by (simp only: find_room_None_iff not_not)
  then obtain i' where i': "find_room name (map snd db) = Some i'"
    by blast
  from find_room_Some_first [OF i'] have g: "first_with_key name db i'"
    by (auto simp: first_with_key_def)
  have "i = i'"
  proof (rule ccontr)
    assume "i \<noteq> i'"
    then consider "i < i'" | "i' < i" by linarith
    then show False
    proof cases
      case 1
      with g have "Some (Room.stream_key (snd (db ! i))) \<noteq> name"
        by (simp add: first_with_key_def)
      with f show False by (simp add: first_with_key_def)
    next
      case 2
      with f have "Some (Room.stream_key (snd (db ! i'))) \<noteq> name"
        by (simp add: first_with_key_def)
      with g show False by (simp add: first_with_key_def)
    qed
  qed
  with i' show "find_room name (map snd db) = Some i" by simp
qed

lemma first_with_key_unique:
  "first_with_key name db i \<Longrightarrow> first_with_key name db j \<Longrightarrow> i = j"
  by (simp add: first_with_key_find_room)

lemma not_first_when_key_differs:
  "Some (Room.stream_key (snd (db ! j))) \<noteq> name \<Longrightarrow> \<not> first_with_key name db j"
  by (simp add: first_with_key_def)

lemma unique_key_is_first:
  assumes "distinct (stream_keys s)" and "i < length (rooms_db s)"
    and "Room.stream_key (snd (rooms_db s ! i)) = k"
  shows "first_with_key (Some k) (rooms_db s) i"
proof -
  have "Room.stream_key (snd (rooms_db s ! j)) \<noteq> k" if "j < i" for j
  proof
    assume e: "Room.stream_key (snd (rooms_db s ! j)) = k"
    from that assms(2) have j: "j < length (stream_keys s)" and i: "i < length (stream_keys s)"
      by (simp_all add: stream_keys_def)
    from e assms(3) that assms(2) have "stream_keys s ! j = stream_keys s ! i"
      by (simp add: stream_keys_def)
    with assms(1) j i have "j = i" by (simp add: nth_eq_iff_index_eq)
    with that show False by simp
  qed
  with assms(2,3) show ?thesis by (simp add: first_with_key_def)
qed

lemma find_room_cong_keys:
  "map Room.stream_key rs = map Room.stream_key rs' \<Longrightarrow> find_room name rs = find_room name rs'"
proof (induction rs arbitrary: rs')
  case Nil
  then show ?case by simp
next
  case (Cons r rs)
  then obtain r' rs'' where rs': "rs' = r' # rs''" by (cases rs') auto
  with Cons.prems have "Room.stream_key r = Room.stream_key r'"
    and "map Room.stream_key rs = map Room.stream_key rs''" by simp_all
  with Cons.IH [of rs''] rs' show ?case by simp
qed

section \<open>Writing the flag of a stored room\<close>

lemma map_list_update_same:
  assumes "i < length xs \<Longrightarrow> f y = f (xs ! i)"
  shows "map f (xs[i := y]) = map f xs"
proof (cases "i < length xs")
  case True
  with assms have "f y = map f xs ! i" by simp
  then have "(map f xs)[i := f y] = map f xs"
    by simp
  then show ?thesis by (simp add: map_update)
next
  case False
  then have "xs[i := y] = xs" by (simp add: list_update_beyond)
  then show ?thesis by (rule arg_cong)
qed

lemma length_set_is_active [simp]: "length (set_is_active i b db) = length db"
  by (simp add: set_is_active_def)

lemma map_fst_set_is_active [simp]: "map fst (set_is_active i b db) = map fst db"
  by (simp add: set_is_active_def map_list_update_same)

lemma nth_set_is_active:
  "j < length db \<Longrightarrow>
     set_is_active i b db ! j =
       (if j = i then (fst (db ! j), (snd (db ! j))\<lparr>Room.is_active := b\<rparr>) else db ! j)"
  by (simp add: set_is_active_def nth_list_update)

lemma stream_keys_set_is_active [simp]:
  "map (\<lambda>p. Room.stream_key (snd p)) (set_is_active i b db) =
     map (\<lambda>p. Room.stream_key (snd p)) db"
  by (simp add: set_is_active_def map_list_update_same)

lemma room_ids_set_is_active [simp]:
  "map (\<lambda>p. Room.room_id (snd p)) (set_is_active i b db) =
     map (\<lambda>p. Room.room_id (snd p)) db"
  by (simp add: set_is_active_def map_list_update_same)

lemma find_room_set_is_active [simp]:
  "find_room name (map snd (set_is_active i b db)) = find_room name (map snd db)"
proof (rule find_room_cong_keys)
  show "map Room.stream_key (map snd (set_is_active i b db)) = map Room.stream_key (map snd db)"
    using stream_keys_set_is_active [of i b db] by (simp add: comp_def)
qed

lemma map_of_set_is_active:
  assumes "distinct (map fst db)" and "i < length db"
  shows "map_of (set_is_active i b db) rid =
     (if rid = fst (db ! i) then Some ((snd (db ! i))\<lparr>Room.is_active := b\<rparr>)
      else map_of db rid)"
proof -
  have d: "distinct (map fst (set_is_active i b db))"
    using assms(1) by simp
  have n: "set_is_active i b db ! i = (fst (db ! i), (snd (db ! i))\<lparr>Room.is_active := b\<rparr>)"
    using assms(2) by (simp add: nth_set_is_active)
  show ?thesis
  proof (cases "rid = fst (db ! i)")
    case True
    have "(fst (db ! i), (snd (db ! i))\<lparr>Room.is_active := b\<rparr>) \<in> set (set_is_active i b db)"
      using n assms(2) by (metis length_set_is_active nth_mem)
    with d True show ?thesis by simp
  next
    case False
    have "map_of (set_is_active i b db) rid = map_of db rid"
    proof (cases "map_of db rid")
      case None
      then have "rid \<notin> fst ` set db" by (simp add: map_of_eq_None_iff)
      moreover have "fst ` set (set_is_active i b db) = fst ` set db"
        using map_fst_set_is_active [of i b db] by (metis set_map)
      ultimately have "map_of (set_is_active i b db) rid = None"
        by (simp add: map_of_eq_None_iff)
      then show ?thesis using None by simp
    next
      case (Some r)
      then have "(rid, r) \<in> set db" by (rule map_of_SomeD)
      then obtain j where j: "j < length db" "db ! j = (rid, r)"
        by (auto simp: in_set_conv_nth)
      with False have "j \<noteq> i" by auto
      with j have "set_is_active i b db ! j = (rid, r)"
        by (simp add: nth_set_is_active)
      with j(1) have "(rid, r) \<in> set (set_is_active i b db)"
        by (metis length_set_is_active nth_mem)
      with d Some show ?thesis by simp
    qed
    with False show ?thesis by simp
  qed
qed

lemma rooms_db_after_start:
  "rooms_db (snd (stream_start_webhook stdout now (Form name) s)) =
     (case find_room name (map snd (rooms_db s)) of
        None \<Rightarrow> rooms_db s | Some i \<Rightarrow> set_is_active i True (rooms_db s))"
  by (simp add: stream_start_webhook_def split: option.split)

lemma rooms_db_after_end:
  "rooms_db (snd (stream_end_webhook stdout (Form name) s)) =
     (case find_room name (map snd (rooms_db s)) of
        None \<Rightarrow> rooms_db s | Some i \<Rightarrow> set_is_active i False (rooms_db s))"
  by (simp add: stream_end_webhook_def split: option.split)

lemma webhooks_rejected [simp]:
  "stream_start_webhook stdout now (Rejected message) s = (Inl (HTTPException 400 message), s)"
  "stream_end_webhook stdout (Rejected message) s = (Inl (HTTPException 400 message), s)"
  by (simp_all add: stream_start_webhook_def stream_end_webhook_def)


lemma nth_after_flag:
  assumes "j < length db"
  shows "(case find_room name (map snd db) of
            None \<Rightarrow> db | Some i \<Rightarrow> set_is_active i b db) ! j =
         (if first_with_key name db j
          then (fst (db ! j), (snd (db ! j))\<lparr>Room.is_active := b\<rparr>) else db ! j)"
proof (cases "find_room name (map snd db)")
  case None
  then show ?thesis by (simp add: first_with_key_find_room)
next
  case (Some i)
  with assms show ?thesis
    by (auto simp: first_with_key_find_room nth_set_is_active)
qed

lemma length_after_flag:
  "length (case find_room name (map snd db) of
            None \<Rightarrow> db | Some i \<Rightarrow> set_is_active i b db) = length db"
  by (simp split: option.split)

section \<open>Lookup and deletion\<close>

lemma get_room_Some:
  "map_of (rooms_db s) rid = Some room \<Longrightarrow>
     \<exists>resp. get_room png_base64 rid s = Inr resp \<and>
       RoomResponse.is_active resp = Room.is_active room \<and>
       RoomResponse.stream_key resp = Room.stream_key room \<and>
       RoomResponse.title resp = Room.title room"
  by (simp add: get_room_def Let_def)

lemma get_room_after_delete:
  "get_room png_base64 rid (snd (delete_room rid s)) = Inl (HTTPException 404 ''Room not found'')"
proof (cases "map_of (rooms_db s) rid")
  case None
  then show ?thesis by (simp add: delete_room_def get_room_def)
next
  case (Some room)
  have "map_of (AList.delete rid (rooms_db s)) rid = None"
    by (simp add: delete_conv')
  with Some show ?thesis by (simp add: delete_room_def get_room_def)
qed

lemma sessions_after_delete: "active_streams (snd (delete_room rid s)) = active_streams s"
  by (simp add: delete_room_def split: option.split)


section \<open>Invariants of the registry\<close>

lemma map_update_agree:
  assumes "map g al = map fst al" and "g (k, v) = k"
  shows "map g (AList.update k v al) = map fst (AList.update k v al)"
  using assms by (induction al) auto

lemma map_delete_agree:
  assumes "map g al = map fst al"
  shows "map g (AList.delete k al) = map fst (AList.delete k al)"
  using assms by (induction al) auto

lemma registry_inv_initial: "registry_inv initial_state"
  by (simp add: registry_inv_def initial_state_def room_ids_def)

lemma registry_inv_create:
  assumes "registry_inv s"
  shows "registry_inv (snd (create_room png_base64 uuid4 token now request s))"
proof -
  let ?room = "\<lparr>Room.room_id = uuid4, Room.stream_key = token,
      Room.title = CreateRoomRequest.title request, Room.created_at = now,
      Room.is_active = False, Room.viewer_count = 0\<rparr>"
  have db: "rooms_db (snd (create_room png_base64 uuid4 token now request s)) =
      AList.update uuid4 ?room (rooms_db s)"
    by (simp add: create_room_def Let_def)
  from assms have d: "distinct (map fst (rooms_db s))"
    and m: "map (\<lambda>p. Room.room_id (snd p)) (rooms_db s) = map fst (rooms_db s)"
    by (simp_all add: registry_inv_def room_ids_def)
  from d have "distinct (map fst (AList.update uuid4 ?room (rooms_db s)))"
    by (rule distinct_update)
  moreover have "map (\<lambda>p. Room.room_id (snd p)) (AList.update uuid4 ?room (rooms_db s)) =
      map fst (AList.update uuid4 ?room (rooms_db s))"
    by (rule map_update_agree [OF m]) simp
  ultimately show ?thesis
    by (simp only: registry_inv_def room_ids_def db)
qed

lemma registry_inv_delete:
  assumes "registry_inv s"
  shows "registry_inv (snd (delete_room rid s))"
proof (cases "map_of (rooms_db s) rid")
  case None
  with assms show ?thesis by (simp add: delete_room_def)
next
  case (Some room)
  then have db: "rooms_db (snd (delete_room rid s)) = AList.delete rid (rooms_db s)"
    by (simp add: delete_room_def)
  from assms have d: "distinct (map fst (rooms_db s))"
    and m: "map (\<lambda>p. Room.room_id (snd p)) (rooms_db s) = map fst (rooms_db s)"
    by (simp_all add: registry_inv_def room_ids_def)
  from d have "distinct (map fst (AList.delete rid (rooms_db s)))"
    by (rule distinct_delete)
  moreover have "map (\<lambda>p. Room.room_id (snd p)) (AList.delete rid (rooms_db s)) =
      map fst (AList.delete rid (rooms_db s))"
    by (rule map_delete_agree [OF m])
  ultimately show ?thesis
    by (simp only: registry_inv_def room_ids_def db)
qed

lemma registry_inv_flag:
  assumes "registry_inv s" and "rooms_db s' = set_is_active i b (rooms_db s)"
  shows "registry_inv s'"
  using assms by (simp add: registry_inv_def room_ids_def)

lemma registry_inv_start_form:
  assumes "registry_inv s"
  shows "registry_inv (snd (stream_start_webhook stdout now (Form name) s))"
proof (cases "find_room name (map snd (rooms_db s))")
  case None
  with assms show ?thesis by (simp add: stream_start_webhook_def)
next
  case (Some i)
  then have "rooms_db (snd (stream_start_webhook stdout now (Form name) s)) =
      set_is_active i True (rooms_db s)"
    by (simp add: rooms_db_after_start)
  with assms show ?thesis by (rule registry_inv_flag)
qed

lemma registry_inv_end_form:
  assumes "registry_inv s"
  shows "registry_inv (snd (stream_end_webhook stdout (Form name) s))"
proof (cases "find_room name (map snd (rooms_db s))")
  case None
  with assms show ?thesis by (simp add: stream_end_webhook_def)
next
  case (Some i)
  then have "rooms_db (snd (stream_end_webhook stdout (Form name) s)) =
      set_is_active i False (rooms_db s)"
    by (simp add: rooms_db_after_end)
  with assms show ?thesis by (rule registry_inv_flag)
qed

lemma registry_inv_start:
  "registry_inv s \<Longrightarrow> registry_inv (snd (stream_start_webhook stdout now request s))"
  by (cases request) (simp_all add: registry_inv_start_form)

lemma registry_inv_end:
  "registry_inv s \<Longrightarrow> registry_inv (snd (stream_end_webhook stdout request s))"
  by (cases request) (simp_all add: registry_inv_end_form)

lemma registry_inv_serve:
  assumes "registry_inv s"
  shows "registry_inv (serve png_base64 stdout q s)"
  using assms
  by (cases q)
    (simp_all add: registry_inv_create registry_inv_delete registry_inv_start registry_inv_end)

lemma registry_inv_run: "registry_inv s \<Longrightarrow> registry_inv (run png_base64 stdout qs s)"
  by (induction qs arbitrary: s) (simp_all add: registry_inv_serve)

lemma dict_keys_distinct_run: "dict_keys_distinct (run png_base64 stdout qs initial_state)"
  using registry_inv_run [OF registry_inv_initial, of png_base64 stdout qs]
  by (simp add: registry_inv_def dict_keys_distinct_def)





section \<open>The concrete states, evaluated\<close>

lemmas handler_defs =
  stdout_utf8_def create_room_def delete_room_def stream_start_webhook_def stream_end_webhook_def
  get_stream_status_def get_room_def set_is_active_def stream_keys_def initial_state_def
  generate_qr_code_def status_ok_def Let_def

lemmas ident_defs = uuid_a_def uuid_b_def token_a_def token_b_def

lemma one_room_state_eq:
  "one_room_state =
     \<lparr>rooms_db = [(uuid_a, \<lparr>Room.room_id = uuid_a, Room.stream_key = token_a,
                               Room.title = ''Morning Show'', Room.created_at = 1,
                               Room.is_active = False, Room.viewer_count = 0\<rparr>)],
      active_streams = Map.empty\<rparr>"
  by (simp add: one_room_state_def handler_defs morning_show_def)

lemma publishing_state_eq:
  "publishing_state =
     \<lparr>rooms_db = [(uuid_a, \<lparr>Room.room_id = uuid_a, Room.stream_key = token_a,
                               Room.title = ''Morning Show'', Room.created_at = 1,
                               Room.is_active = True, Room.viewer_count = 0\<rparr>)],
      active_streams = [Some token_a \<mapsto> 2]\<rparr>"
  by (simp add: publishing_state_def handler_defs morning_show_def)

lemma orphan_session_state_eq:
  "orphan_session_state = \<lparr>rooms_db = [], active_streams = [Some token_a \<mapsto> 2]\<rparr>"
  by (simp add: orphan_session_state_def handler_defs morning_show_def)

lemma two_rooms_state_eq:
  "two_rooms_state =
     \<lparr>rooms_db = [(uuid_a, \<lparr>Room.room_id = uuid_a, Room.stream_key = token_a,
                               Room.title = ''Morning Show'', Room.created_at = 1,
                               Room.is_active = False, Room.viewer_count = 0\<rparr>),
                  (uuid_b, \<lparr>Room.room_id = uuid_b, Room.stream_key = token_b,
                               Room.title = ''Evening Show'', Room.created_at = 2,
                               Room.is_active = False, Room.viewer_count = 0\<rparr>)],
      active_streams = Map.empty\<rparr>"
  by (simp add: two_rooms_state_def handler_defs morning_show_def evening_show_def ident_defs)

lemma shared_key_state_eq:
  "shared_key_state =
     \<lparr>rooms_db = [(uuid_a, \<lparr>Room.room_id = uuid_a, Room.stream_key = token_a,
                               Room.title = ''Morning Show'', Room.created_at = 1,
                               Room.is_active = False, Room.viewer_count = 0\<rparr>),
                  (uuid_b, \<lparr>Room.room_id = uuid_b, Room.stream_key = token_a,
                               Room.title = ''Evening Show'', Room.created_at = 2,
                               Room.is_active = False, Room.viewer_count = 0\<rparr>)],
      active_streams = Map.empty\<rparr>"
  by (simp add: shared_key_state_def handler_defs morning_show_def evening_show_def ident_defs)


section \<open>Stream end and the session table\<close>

text \<open>
  C1 (as amended). \<open>stream_end_webhook\<close> removes the session record of a stream key
  \<open>k\<close> when some room of the registry bears \<open>k\<close>, and \<open>get_stream_status\<close> then
  reports \<open>k\<close> inactive with no start time. When no room bears \<open>k\<close> the handler leaves
  the whole state as it was, the session record of \<open>k\<close> included.
\<close>

theorem stream_end_removes_session_only_with_room:
  "(k \<in> set (stream_keys s) \<longrightarrow>
      active_streams (snd (stream_end_webhook stdout (Form (Some k)) s)) (Some k) = None \<and>
      get_stream_status k (snd (stream_end_webhook stdout (Form (Some k)) s)) =
        \<lparr>StreamStatus.stream_key = k, StreamStatus.is_active = False, started_at = None\<rparr>) \<and>
   (k \<notin> set (stream_keys s) \<longrightarrow> snd (stream_end_webhook stdout (Form (Some k)) s) = s)"
proof (intro conjI impI)
  assume "k \<in> set (stream_keys s)"
  then obtain i where i: "find_room (Some k) (map snd (rooms_db s)) = Some i"
    using find_room_stream_keys [of k s] by blast
  then show "active_streams (snd (stream_end_webhook stdout (Form (Some k)) s)) (Some k) = None"
    by (simp add: stream_end_webhook_def)
  then show "get_stream_status k (snd (stream_end_webhook stdout (Form (Some k)) s)) =
        \<lparr>StreamStatus.stream_key = k, StreamStatus.is_active = False, started_at = None\<rparr>"
    by (simp add: get_stream_status_def)
next
  assume "k \<notin> set (stream_keys s)"
  then have "find_room (Some k) (map snd (rooms_db s)) = None"
    by (simp add: find_room_stream_keys)
  then show "snd (stream_end_webhook stdout (Form (Some k)) s) = s"
    by (simp add: stream_end_webhook_def)
qed

theorem stream_end_removes_session_only_with_room_witness:
  "token_a \<in> set (stream_keys publishing_state) \<and>
   get_stream_status token_a (snd (stream_end_webhook stdout_utf8 (Form (Some token_a)) publishing_state)) =
     \<lparr>StreamStatus.stream_key = token_a, StreamStatus.is_active = False, started_at = None\<rparr> \<and>
   token_a \<notin> set (stream_keys orphan_session_state) \<and>
   snd (stream_end_webhook stdout_utf8 (Form (Some token_a)) orphan_session_state) = orphan_session_state"
proof -
  have a: "token_a \<in> set (stream_keys publishing_state)"
    by (simp add: publishing_state_eq stream_keys_def)
  have b: "token_a \<notin> set (stream_keys orphan_session_state)"
    by (simp add: orphan_session_state_eq stream_keys_def)
  from a b stream_end_removes_session_only_with_room [of token_a publishing_state stdout_utf8]
    stream_end_removes_session_only_with_room [of token_a orphan_session_state stdout_utf8]
  show ?thesis by simp
qed

text \<open>
  The claim as it was stated fails after a room was deleted while its stream was publishing:
  no room bears the key any more, and the end of the stream leaves the session in place.
\<close>

theorem stream_end_keeps_orphan_session_counterexample:
  "token_a \<notin> set (stream_keys orphan_session_state) \<and>
   get_stream_status token_a (snd (stream_end_webhook stdout_utf8 (Form (Some token_a)) orphan_session_state)) =
     \<lparr>StreamStatus.stream_key = token_a, StreamStatus.is_active = True, started_at = Some 2\<rparr> \<and>
   get_stream_status token_a (snd (stream_end_webhook stdout_utf8 (Form (Some token_a)) orphan_session_state)) \<noteq>
     \<lparr>StreamStatus.stream_key = token_a, StreamStatus.is_active = False, started_at = None\<rparr>"
  by (simp add: orphan_session_state_eq stream_keys_def stream_end_webhook_def
      get_stream_status_def)

section \<open>Stream start for a key without a room\<close>

text \<open>
  C2 (as amended). For a stream key \<open>k\<close> that no room of the registry bears,
  \<open>stream_start_webhook\<close> raises nothing, answers \<open>status_ok\<close> and leaves the state as
  it was: no session is recorded for \<open>k\<close>, and \<open>get_stream_status\<close> reports for \<open>k\<close> what
  it reported before.
\<close>

theorem stream_start_without_room_records_nothing:
  "k \<notin> set (stream_keys s) \<Longrightarrow>
     stream_start_webhook stdout now (Form (Some k)) s = (Inr status_ok, s) \<and>
     get_stream_status k (snd (stream_start_webhook stdout now (Form (Some k)) s)) = get_stream_status k s"
proof -
  assume "k \<notin> set (stream_keys s)"
  then have "find_room (Some k) (map snd (rooms_db s)) = None"
    by (simp add: find_room_stream_keys)
  then show ?thesis by (simp add: stream_start_webhook_def)
qed

theorem stream_start_without_room_records_nothing_witness:
  "token_b \<notin> set (stream_keys one_room_state) \<and>
   stream_start_webhook stdout_utf8 5 (Form (Some token_b)) one_room_state = (Inr status_ok, one_room_state) \<and>
   get_stream_status token_b (snd (stream_start_webhook stdout_utf8 5 (Form (Some token_b)) one_room_state)) =
     get_stream_status token_b one_room_state"
proof -
  have a: "token_b \<notin> set (stream_keys one_room_state)"
    by (simp add: one_room_state_eq stream_keys_def ident_defs)
  from a stream_start_without_room_records_nothing [OF a, of stdout_utf8 5] show ?thesis by simp
qed

text \<open>
  The claim as it was stated fails in the empty registry: the start of an unknown stream
  records no session.
\<close>

theorem stream_start_orphan_not_recorded_counterexample:
  "token_a \<notin> set (stream_keys initial_state) \<and>
   get_stream_status token_a (snd (stream_start_webhook stdout_utf8 1 (Form (Some token_a)) initial_state)) =
     \<lparr>StreamStatus.stream_key = token_a, StreamStatus.is_active = False, started_at = None\<rparr> \<and>
   active_streams (snd (stream_start_webhook stdout_utf8 1 (Form (Some token_a)) initial_state)) (Some token_a) = None"
  by (simp add: handler_defs)

section \<open>Start, status, end, status\<close>

text \<open>
  C3 (as amended). In every state, for every stream key \<open>k\<close> that some room of the
  registry bears: after \<open>stream_start_webhook\<close> for \<open>k\<close> at time \<open>now\<close> the status of
  \<open>k\<close> is active with start time \<open>now\<close>, and after \<open>stream_end_webhook\<close> for \<open>k\<close>
  it is inactive with no start time.
\<close>

theorem start_status_end_status_with_room:
  "k \<in> set (stream_keys s) \<Longrightarrow>
     get_stream_status k (snd (stream_start_webhook stdout now (Form (Some k)) s)) =
       \<lparr>StreamStatus.stream_key = k, StreamStatus.is_active = True, started_at = Some now\<rparr> \<and>
     get_stream_status k
        (snd (stream_end_webhook stdout (Form (Some k)) (snd (stream_start_webhook stdout now (Form (Some k)) s)))) =
       \<lparr>StreamStatus.stream_key = k, StreamStatus.is_active = False, started_at = None\<rparr>"
proof -
  assume "k \<in> set (stream_keys s)"
  then obtain i where i: "find_room (Some k) (map snd (rooms_db s)) = Some i"
    using find_room_stream_keys [of k s] by blast
  then show ?thesis
    by (simp add: stream_start_webhook_def stream_end_webhook_def get_stream_status_def)
qed

theorem start_status_end_status_with_room_witness:
  "token_a \<in> set (stream_keys one_room_state) \<and>
   get_stream_status token_a (snd (stream_start_webhook stdout_utf8 7 (Form (Some token_a)) one_room_state)) =
     \<lparr>StreamStatus.stream_key = token_a, StreamStatus.is_active = True, started_at = Some 7\<rparr> \<and>
   get_stream_status token_a
      (snd (stream_end_webhook stdout_utf8 (Form (Some token_a))
         (snd (stream_start_webhook stdout_utf8 7 (Form (Some token_a)) one_room_state)))) =
     \<lparr>StreamStatus.stream_key = token_a, StreamStatus.is_active = False, started_at = None\<rparr>"
proof -
  have a: "token_a \<in> set (stream_keys one_room_state)"
    by (simp add: one_room_state_eq stream_keys_def)
  from a start_status_end_status_with_room [OF a, of stdout_utf8 7] show ?thesis by simp
qed

text \<open>
  The claim as it was stated fails for a key that no room bears: the status after the start
  is inactive.
\<close>

theorem start_then_status_inactive_counterexample:
  "\<not> StreamStatus.is_active
       (get_stream_status token_b (snd (stream_start_webhook stdout_utf8 2 (Form (Some token_b)) one_room_state))) \<and>
   started_at
       (get_stream_status token_b (snd (stream_start_webhook stdout_utf8 2 (Form (Some token_b)) one_room_state))) =
     None"
  by (simp add: one_room_state_eq stream_start_webhook_def get_stream_status_def ident_defs)

section \<open>Uniqueness of room identifiers and stream keys\<close>




section \<open>The flag of the room that owns a stream key\<close>

text \<open>
  C5 (as amended). Let a room be stored under \<open>rid\<close> and be the first room of the
  registry with stream key \<open>k\<close> (any room with stream key \<open>k\<close>, when the stream keys of
  the registry are pairwise different, by \<open>unique_key_is_first\<close>; the keys of the dictionary
  are pairwise different in every reachable state, by \<open>dict_keys_distinct_run\<close>). After
  \<open>stream_start_webhook\<close> for \<open>k\<close>, \<open>get_room rid\<close> succeeds and shows the room active;
  after a following \<open>stream_end_webhook\<close> for \<open>k\<close> it succeeds and shows the room inactive.
\<close>

theorem first_room_with_key_flips_active:
  assumes "dict_keys_distinct s"
    and "first_with_key (Some k) (rooms_db s) i"
    and "rooms_db s ! i = (rid, room)"
  shows "\<exists>started ended.
     get_room png_base64 rid (snd (stream_start_webhook stdout now (Form (Some k)) s)) = Inr started \<and>
     RoomResponse.is_active started = True \<and>
     RoomResponse.stream_key started = k \<and>
     get_room png_base64 rid
       (snd (stream_end_webhook stdout (Form (Some k)) (snd (stream_start_webhook stdout now (Form (Some k)) s)))) =
         Inr ended \<and>
     RoomResponse.is_active ended = False \<and>
     RoomResponse.stream_key ended = k"
proof -
  let ?db = "rooms_db s"
  let ?s1 = "snd (stream_start_webhook stdout now (Form (Some k)) s)"
  let ?s2 = "snd (stream_end_webhook stdout (Form (Some k)) ?s1)"
  from assms(1) have d: "distinct (map fst ?db)"
    by (simp add: dict_keys_distinct_def)
  from assms(2) have f: "find_room (Some k) (map snd ?db) = Some i"
    by (simp add: first_with_key_find_room)
  from assms(2) have i: "i < length ?db" and key: "Room.stream_key (snd (?db ! i)) = k"
    by (simp_all add: first_with_key_def)
  from f have db1: "rooms_db ?s1 = set_is_active i True ?db"
    by (simp add: rooms_db_after_start)
  then have f1: "find_room (Some k) (map snd (rooms_db ?s1)) = Some i"
    using f by simp
  then have db2: "rooms_db ?s2 = set_is_active i False (rooms_db ?s1)"
    by (simp add: rooms_db_after_end)
  have m1: "map_of (rooms_db ?s1) rid = Some (room\<lparr>Room.is_active := True\<rparr>)"
    using map_of_set_is_active [OF d i, of True rid] assms(3) db1 by simp
  have d1: "distinct (map fst (rooms_db ?s1))" and i1: "i < length (rooms_db ?s1)"
    using d i db1 by simp_all
  have n1: "rooms_db ?s1 ! i = (rid, room\<lparr>Room.is_active := True\<rparr>)"
    using db1 i assms(3) by (simp add: nth_set_is_active)
  have m2: "map_of (rooms_db ?s2) rid = Some (room\<lparr>Room.is_active := False\<rparr>)"
    using map_of_set_is_active [OF d1 i1, of False rid] n1 db2 by simp
  from key assms(3) have rk: "Room.stream_key room = k" by simp
  from get_room_Some [OF m1, of png_base64] get_room_Some [OF m2, of png_base64] rk
  show ?thesis by auto
qed

theorem first_room_with_key_flips_active_witness:
  "dict_keys_distinct two_rooms_state \<and>
   first_with_key (Some token_b) (rooms_db two_rooms_state) 1 \<and>
   rooms_db two_rooms_state ! 1 =
     (uuid_b, \<lparr>Room.room_id = uuid_b, Room.stream_key = token_b,
               Room.title = ''Evening Show'', Room.created_at = 2,
               Room.is_active = False, Room.viewer_count = 0\<rparr>) \<and>
   (\<exists>started ended.
     get_room id uuid_b (snd (stream_start_webhook stdout_utf8 3 (Form (Some token_b)) two_rooms_state)) =
       Inr started \<and>
     RoomResponse.is_active started = True \<and>
     RoomResponse.stream_key started = token_b \<and>
     get_room id uuid_b
       (snd (stream_end_webhook stdout_utf8 (Form (Some token_b))
          (snd (stream_start_webhook stdout_utf8 3 (Form (Some token_b)) two_rooms_state)))) = Inr ended \<and>
     RoomResponse.is_active ended = False \<and>
     RoomResponse.stream_key ended = token_b)"
proof -
  have a: "dict_keys_distinct two_rooms_state"
    by (simp add: two_rooms_state_eq dict_keys_distinct_def ident_defs)
  have b: "first_with_key (Some token_b) (rooms_db two_rooms_state) 1"
    by (simp add: two_rooms_state_eq first_with_key_def ident_defs)
  have c: "rooms_db two_rooms_state ! 1 =
     (uuid_b, \<lparr>Room.room_id = uuid_b, Room.stream_key = token_b,
               Room.title = ''Evening Show'', Room.created_at = 2,
               Room.is_active = False, Room.viewer_count = 0\<rparr>)"
    by (simp add: two_rooms_state_eq)
  from a b c first_room_with_key_flips_active [OF a b c, of id stdout_utf8 3] show ?thesis
    by blast
qed

text \<open>
  The claim as it was stated, for every room with stream key \<open>k\<close>, fails for the second of
  two rooms that share a stream key: the loop stops at the first one.
\<close>

theorem second_room_with_shared_key_counterexample:
  "map_option Room.stream_key (map_of (rooms_db shared_key_state) uuid_b) = Some token_a \<and>
   map_sum id RoomResponse.is_active
     (get_room id uuid_b (snd (stream_start_webhook stdout_utf8 3 (Form (Some token_a)) shared_key_state))) =
       Inr False"
  by (simp add: shared_key_state_eq stream_start_webhook_def get_room_def set_is_active_def
      generate_qr_code_def Let_def ident_defs)

section \<open>The webhooks' answer\<close>




section \<open>Deleting a room and the session table\<close>

text \<open>
  C7. \<open>delete_room\<close> never changes \<open>active_streams\<close>. When the room stored under \<open>rid\<close>
  has a session for its stream key, \<open>delete_room rid\<close> succeeds, the session stays,
  \<open>get_stream_status\<close> still reports the key active with the same start time, and
  \<open>get_room rid\<close> raises 404.
\<close>

theorem delete_room_keeps_sessions:
  "active_streams (snd (delete_room rid s)) = active_streams s \<and>
   (map_of (rooms_db s) rid = Some room \<longrightarrow>
    active_streams s (Some (Room.stream_key room)) = Some t \<longrightarrow>
      fst (delete_room rid s) = Inr [(''message'', ''Room deleted successfully'')] \<and>
      get_stream_status (Room.stream_key room) (snd (delete_room rid s)) =
        \<lparr>StreamStatus.stream_key = Room.stream_key room, StreamStatus.is_active = True,
         started_at = Some t\<rparr> \<and>
      get_room png_base64 rid (snd (delete_room rid s)) =
        Inl (HTTPException 404 ''Room not found''))"
proof (intro conjI impI)
  show "active_streams (snd (delete_room rid s)) = active_streams s"
    by (rule sessions_after_delete)
next
  assume "map_of (rooms_db s) rid = Some room"
  then show "fst (delete_room rid s) = Inr [(''message'', ''Room deleted successfully'')]"
    by (simp add: delete_room_def)
next
  assume "active_streams s (Some (Room.stream_key room)) = Some t"
  then show "get_stream_status (Room.stream_key room) (snd (delete_room rid s)) =
        \<lparr>StreamStatus.stream_key = Room.stream_key room, StreamStatus.is_active = True,
         started_at = Some t\<rparr>"
    by (simp add: get_stream_status_def sessions_after_delete)
next
  show "get_room png_base64 rid (snd (delete_room rid s)) =
        Inl (HTTPException 404 ''Room not found'')"
    by (rule get_room_after_delete)
qed

theorem delete_room_keeps_sessions_witness:
  "map_of (rooms_db publishing_state) uuid_a =
     Some \<lparr>Room.room_id = uuid_a, Room.stream_key = token_a, Room.title = ''Morning Show'',
           Room.created_at = 1, Room.is_active = True, Room.viewer_count = 0\<rparr> \<and>
   active_streams publishing_state (Some token_a) = Some 2 \<and>
   fst (delete_room uuid_a publishing_state) = Inr [(''message'', ''Room deleted successfully'')] \<and>
   get_stream_status token_a (snd (delete_room uuid_a publishing_state)) =
     \<lparr>StreamStatus.stream_key = token_a, StreamStatus.is_active = True, started_at = Some 2\<rparr> \<and>
   get_room id uuid_a (snd (delete_room uuid_a publishing_state)) =
     Inl (HTTPException 404 ''Room not found'')"
proof -
  have a: "map_of (rooms_db publishing_state) uuid_a =
     Some \<lparr>Room.room_id = uuid_a, Room.stream_key = token_a, Room.title = ''Morning Show'',
           Room.created_at = 1, Room.is_active = True, Room.viewer_count = 0\<rparr>"
    by (simp add: publishing_state_eq)
  have b: "active_streams publishing_state (Some token_a) = Some 2"
    by (simp add: publishing_state_eq)
  from a b delete_room_keeps_sessions [of uuid_a publishing_state
      "\<lparr>Room.room_id = uuid_a, Room.stream_key = token_a, Room.title = ''Morning Show'',
        Room.created_at = 1, Room.is_active = True, Room.viewer_count = 0\<rparr>" 2 id]
  show ?thesis by simp
qed

section \<open>Not found\<close>

text \<open>
  C8. For every \<open>rid\<close> and every state, \<open>get_room rid\<close> after \<open>delete_room rid\<close> raises
  404 "Room not found"; and for a \<open>rid\<close> that is not a key of \<open>rooms_db\<close>, both
  \<open>delete_room rid\<close> and \<open>get_room rid\<close> raise 404 "Room not found".
\<close>

theorem delete_then_get_not_found:
  "get_room png_base64 rid (snd (delete_room rid s)) =
     Inl (HTTPException 404 ''Room not found'') \<and>
   (rid \<notin> fst ` set (rooms_db s) \<longrightarrow>
      fst (delete_room rid s) = Inl (HTTPException 404 ''Room not found'') \<and>
      get_room png_base64 rid s = Inl (HTTPException 404 ''Room not found''))"
proof (intro conjI impI)
  show "get_room png_base64 rid (snd (delete_room rid s)) =
     Inl (HTTPException 404 ''Room not found'')"
    by (rule get_room_after_delete)
next
  assume "rid \<notin> fst ` set (rooms_db s)"
  then have n: "map_of (rooms_db s) rid = None"
    by (simp add: map_of_eq_None_iff)
  from n show "fst (delete_room rid s) = Inl (HTTPException 404 ''Room not found'')"
    by (simp add: delete_room_def)
  from n show "get_room png_base64 rid s = Inl (HTTPException 404 ''Room not found'')"
    by (simp add: get_room_def)
qed

theorem delete_then_get_not_found_witness:
  "uuid_b \<notin> fst ` set (rooms_db one_room_state) \<and>
   fst (delete_room uuid_b one_room_state) = Inl (HTTPException 404 ''Room not found'') \<and>
   get_room id uuid_b one_room_state = Inl (HTTPException 404 ''Room not found'') \<and>
   uuid_a \<in> fst ` set (rooms_db one_room_state) \<and>
   get_room id uuid_a (snd (delete_room uuid_a one_room_state)) =
     Inl (HTTPException 404 ''Room not found'')"
proof -
  have a: "uuid_b \<notin> fst ` set (rooms_db one_room_state)"
    by (simp add: one_room_state_eq ident_defs)
  have b: "uuid_a \<in> fst ` set (rooms_db one_room_state)"
    by (simp add: one_room_state_eq)
  from a b delete_then_get_not_found [of id uuid_b one_room_state]
    delete_then_get_not_found [of id uuid_a one_room_state]
  show ?thesis by simp
qed

section \<open>Lookup after creation\<close>

text \<open>
  C9. For every request, every state and every draw of the generators, \<open>create_room\<close>
  succeeds, and \<open>get_room\<close> at the \<open>room_id\<close> of its response succeeds in the new state
  with the very same response: the title of the request, \<open>is_active\<close> false and
  \<open>viewer_count\<close> 0.
\<close>

theorem get_after_create:
  "\<exists>resp s' got.
     create_room png_base64 uuid4 token now request s = (Inr resp, s') \<and>
     get_room png_base64 (RoomResponse.room_id resp) s' = Inr got \<and>
     got = resp \<and>
     RoomResponse.title got = CreateRoomRequest.title request \<and>
     RoomResponse.is_active got = False \<and>
     RoomResponse.viewer_count got = 0"
  by (simp add: create_room_def get_room_def Let_def update_conv')

section \<open>What the webhooks leave alone\<close>

text \<open>
  C10. Both webhooks keep the length and order of the registry. The room at a position is
  rewritten, with only its \<open>is_active\<close> flag set, exactly when it is the first room whose
  stream key equals the form value; at most one position is the first; every room whose
  stream key differs from the form value is unchanged; and when no room bears the form
  value (an unknown key, a missing field) both webhooks answer \<open>status_ok\<close> and leave the
  whole state unchanged.
\<close>

theorem webhooks_touch_only_first_room_with_key:
  "length (rooms_db (snd (stream_start_webhook stdout now (Form name) s))) = length (rooms_db s) \<and>
   length (rooms_db (snd (stream_end_webhook stdout (Form name) s))) = length (rooms_db s) \<and>
   (\<forall>j < length (rooms_db s).
      rooms_db (snd (stream_start_webhook stdout now (Form name) s)) ! j =
        (if first_with_key name (rooms_db s) j
         then (fst (rooms_db s ! j), (snd (rooms_db s ! j))\<lparr>Room.is_active := True\<rparr>)
         else rooms_db s ! j) \<and>
      rooms_db (snd (stream_end_webhook stdout (Form name) s)) ! j =
        (if first_with_key name (rooms_db s) j
         then (fst (rooms_db s ! j), (snd (rooms_db s ! j))\<lparr>Room.is_active := False\<rparr>)
         else rooms_db s ! j)) \<and>
   (\<forall>i j. first_with_key name (rooms_db s) i \<longrightarrow> first_with_key name (rooms_db s) j \<longrightarrow> i = j) \<and>
   (\<forall>j < length (rooms_db s).
      Some (Room.stream_key (snd (rooms_db s ! j))) \<noteq> name \<longrightarrow>
        rooms_db (snd (stream_start_webhook stdout now (Form name) s)) ! j = rooms_db s ! j \<and>
        rooms_db (snd (stream_end_webhook stdout (Form name) s)) ! j = rooms_db s ! j) \<and>
   (name \<notin> set (map (\<lambda>p. Some (Room.stream_key (snd p))) (rooms_db s)) \<longrightarrow>
      stream_start_webhook stdout now (Form name) s = (Inr status_ok, s) \<and>
      stream_end_webhook stdout (Form name) s = (Inr status_ok, s)) \<and>
   snd (stream_start_webhook stdout now (Rejected message) s) = s \<and>
   snd (stream_end_webhook stdout (Rejected message) s) = s"
proof (intro conjI allI impI)
  show "length (rooms_db (snd (stream_start_webhook stdout now (Form name) s))) = length (rooms_db s)"
    by (simp only: rooms_db_after_start length_after_flag)
  show "length (rooms_db (snd (stream_end_webhook stdout (Form name) s))) = length (rooms_db s)"
    by (simp only: rooms_db_after_end length_after_flag)
next
  fix j assume "j < length (rooms_db s)"
  then show "rooms_db (snd (stream_start_webhook stdout now (Form name) s)) ! j =
        (if first_with_key name (rooms_db s) j
         then (fst (rooms_db s ! j), (snd (rooms_db s ! j))\<lparr>Room.is_active := True\<rparr>)
         else rooms_db s ! j)"
    by (simp only: rooms_db_after_start nth_after_flag)
next
  fix j assume "j < length (rooms_db s)"
  then show "rooms_db (snd (stream_end_webhook stdout (Form name) s)) ! j =
        (if first_with_key name (rooms_db s) j
         then (fst (rooms_db s ! j), (snd (rooms_db s ! j))\<lparr>Room.is_active := False\<rparr>)
         else rooms_db s ! j)"
    by (simp only: rooms_db_after_end nth_after_flag)
next
  fix i j
  assume "first_with_key name (rooms_db s) i" and "first_with_key name (rooms_db s) j"
  then show "i = j" by (rule first_with_key_unique)
next
  fix j
  assume j: "j < length (rooms_db s)"
    and k: "Some (Room.stream_key (snd (rooms_db s ! j))) \<noteq> name"
  from k have n: "\<not> first_with_key name (rooms_db s) j"
    by (rule not_first_when_key_differs)
  from j n show "rooms_db (snd (stream_start_webhook stdout now (Form name) s)) ! j = rooms_db s ! j"
    by (simp only: rooms_db_after_start nth_after_flag if_False)
  from j n show "rooms_db (snd (stream_end_webhook stdout (Form name) s)) ! j = rooms_db s ! j"
    by (simp only: rooms_db_after_end nth_after_flag if_False)
next
  assume "name \<notin> set (map (\<lambda>p. Some (Room.stream_key (snd p))) (rooms_db s))"
  then have n: "find_room name (map snd (rooms_db s)) = None"
    by (simp add: find_room_None_iff comp_def)
  from n show "stream_start_webhook stdout now (Form name) s = (Inr status_ok, s)"
    by (simp add: stream_start_webhook_def)
  from n show "stream_end_webhook stdout (Form name) s = (Inr status_ok, s)"
    by (simp add: stream_end_webhook_def)
next
  show "snd (stream_start_webhook stdout now (Rejected message) s) = s"
    and "snd (stream_end_webhook stdout (Rejected message) s) = s"
    by simp_all
qed

theorem webhooks_touch_only_first_room_with_key_witness:
  "(1::nat) < length (rooms_db two_rooms_state) \<and>
   Some (Room.stream_key (snd (rooms_db two_rooms_state ! 1))) \<noteq> Some token_a \<and>
   rooms_db (snd (stream_start_webhook stdout_utf8 3 (Form (Some token_a)) two_rooms_state)) ! 1 =
     rooms_db two_rooms_state ! 1 \<and>
   rooms_db (snd (stream_end_webhook stdout_utf8 (Form (Some token_a)) two_rooms_state)) ! 1 =
     rooms_db two_rooms_state ! 1 \<and>
   first_with_key (Some token_a) (rooms_db two_rooms_state) 0 \<and>
   Room.is_active (snd (rooms_db (snd (stream_start_webhook stdout_utf8 3 (Form (Some token_a)) two_rooms_state)) ! 0)) \<and>
   None \<notin> set (map (\<lambda>p. Some (Room.stream_key (snd p))) (rooms_db two_rooms_state)) \<and>
   stream_start_webhook stdout_utf8 3 (Form None) two_rooms_state = (Inr status_ok, two_rooms_state) \<and>
   stream_end_webhook stdout_utf8 (Form None) two_rooms_state = (Inr status_ok, two_rooms_state)"
proof -
  have a: "(1::nat) < length (rooms_db two_rooms_state)"
    by (simp add: two_rooms_state_eq)
  have z: "(0::nat) < length (rooms_db two_rooms_state)"
    by (simp add: two_rooms_state_eq)
  have b: "Some (Room.stream_key (snd (rooms_db two_rooms_state ! 1))) \<noteq> Some token_a"
    by (simp add: two_rooms_state_eq ident_defs)
  have c: "first_with_key (Some token_a) (rooms_db two_rooms_state) 0"
    by (simp add: two_rooms_state_eq first_with_key_def)
  have d: "None \<notin> set (map (\<lambda>p. Some (Room.stream_key (snd p))) (rooms_db two_rooms_state))"
    by (simp add: two_rooms_state_eq)
  note t = webhooks_touch_only_first_room_with_key
    [of stdout_utf8 3 "Some token_a" two_rooms_state]
  note u = webhooks_touch_only_first_room_with_key [of stdout_utf8 3 None two_rooms_state]
  from t [THEN conjunct2, THEN conjunct2, THEN conjunct1, rule_format, OF z] c
  have e: "Room.is_active
      (snd (rooms_db (snd (stream_start_webhook stdout_utf8 3 (Form (Some token_a)) two_rooms_state)) ! 0))"
    by simp
  from t [THEN conjunct2, THEN conjunct2, THEN conjunct2, THEN conjunct2, THEN conjunct1,
      rule_format, OF a b]
  have f: "rooms_db (snd (stream_start_webhook stdout_utf8 3 (Form (Some token_a)) two_rooms_state)) ! 1 =
      rooms_db two_rooms_state ! 1 \<and>
    rooms_db (snd (stream_end_webhook stdout_utf8 (Form (Some token_a)) two_rooms_state)) ! 1 =
      rooms_db two_rooms_state ! 1" .
  from u [THEN conjunct2, THEN conjunct2, THEN conjunct2, THEN conjunct2, THEN conjunct2,
      THEN conjunct1, rule_format, OF d]
  have g: "stream_start_webhook stdout_utf8 3 (Form None) two_rooms_state = (Inr status_ok, two_rooms_state) \<and>
    stream_end_webhook stdout_utf8 (Form None) two_rooms_state = (Inr status_ok, two_rooms_state)" .
  from a b c d e f g show ?thesis by blast
qed

end
